theory Spec2Isabelle
  imports Complex_Main
begin

section \<open>Data frames\<close>

text \<open>
  The notebook \<^verbatim>\<open>notebooks/02-dv-join_data.ipynb\<close> works on polars data frames. A data
  frame is an ordered list of named, typed columns; every cell of a column is a value of
  the column's type or null (\<open>None\<close>).

  A 64-bit float is kept as its mathematical value: \<open>Fin q\<close> is the finite value \<open>q\<close>
  (rounding to binary64 and the sign of zero are left out), the other three constructors
  are the IEEE special values.
\<close>

datatype f64 = Fin rat | PosInf | NegInf | NaN

datatype column =
    IntCol "int option list"
  | StrCol "string option list"
  | FloatCol "f64 option list"

datatype dtype = Int64 | Utf8 | Float64

type_synonym dataframe = "(string \<times> column) list"

text \<open>The exceptions the notebook's cells can end with.\<close>

datatype error =
    FileNotFoundError string
  | ColumnNotFoundError string
  | DuplicateError string
  | SchemaError string
  | ShapeError string
  | ValueError string
  | StorageError string

definition bind_err :: "error + 'a \<Rightarrow> ('a \<Rightarrow> error + 'b) \<Rightarrow> error + 'b" where
  "bind_err m f = (case m of Inl e \<Rightarrow> Inl e | Inr x \<Rightarrow> f x)"


fun col_dtype :: "column \<Rightarrow> dtype" where
  "col_dtype (IntCol xs) = Int64"
| "col_dtype (StrCol xs) = Utf8"
| "col_dtype (FloatCol xs) = Float64"

text \<open>\<^verbatim>\<open>df.columns\<close>, \<^verbatim>\<open>df.height\<close> and \<^verbatim>\<open>df.schema\<close>.\<close>

definition columns :: "dataframe \<Rightarrow> string list" where
  "columns df = map fst df"


definition schema :: "dataframe \<Rightarrow> (string \<times> dtype) list" where
  "schema df = map (\<lambda>(n, c). (n, col_dtype c)) df"


definition get_column :: "dataframe \<Rightarrow> string \<Rightarrow> error + column" where
  "get_column df name =
     (case map_of df name of None \<Rightarrow> Inl (ColumnNotFoundError name) | Some c \<Rightarrow> Inr c)"

subsection \<open>The polars operations the notebook calls\<close>

text \<open>
  \<^verbatim>\<open>DataFrame.drop(names)\<close>: strict by default, a name that is not a column raises.
\<close>

definition pl_drop :: "string list \<Rightarrow> dataframe \<Rightarrow> error + dataframe" where
  "pl_drop names df =
     (case filter (\<lambda>n. n \<notin> set (columns df)) names of
        n # rest \<Rightarrow> Inl (ColumnNotFoundError n)
      | [] \<Rightarrow> Inr (filter (\<lambda>(n, c). n \<notin> set names) df))"

text \<open>
  \<^verbatim>\<open>DataFrame.rename(mapping)\<close>: a key that is not a column raises; so does a result in
  which two columns carry one name.
\<close>

definition renamed :: "(string \<times> string) list \<Rightarrow> string \<Rightarrow> string" where
  "renamed mapping n = (case map_of mapping n of None \<Rightarrow> n | Some v \<Rightarrow> v)"

definition pl_rename :: "(string \<times> string) list \<Rightarrow> dataframe \<Rightarrow> error + dataframe" where
  "pl_rename mapping df =
     (case filter (\<lambda>k. k \<notin> set (columns df)) (map fst mapping) of
        k # rest \<Rightarrow> Inl (ColumnNotFoundError k)
      | [] \<Rightarrow>
          (let out = map (\<lambda>(n, c). (renamed mapping n, c)) df
           in if distinct (columns out) then Inr out
              else Inl (DuplicateError ''column name occurs more than once'')))"

text \<open>
  \<^verbatim>\<open>DataFrame.with_columns(expr.alias(name))\<close>: a column of that name is replaced in
  place, a new name is appended.
\<close>

definition with_column :: "string \<Rightarrow> column \<Rightarrow> dataframe \<Rightarrow> dataframe" where
  "with_column name c df =
     (if name \<in> set (columns df)
      then map (\<lambda>(n, old). if n = name then (n, c) else (n, old)) df
      else df @ [(name, c)])"

text \<open>
  \<^verbatim>\<open>.str.slice(offset, length)\<close>, defined on string columns only; null stays null.
  Polars counts characters, the model bytes: the same for the ASCII keys of this data set.
\<close>

definition str_slice :: "nat \<Rightarrow> nat \<Rightarrow> column \<Rightarrow> error + column" where
  "str_slice off len c =
     (case c of
        StrCol xs \<Rightarrow> Inr (StrCol (map (map_option (\<lambda>s. take len (drop off s))) xs))
      | _ \<Rightarrow> Inl (SchemaError ''expected String''))"

text \<open>
  String concatenation \<^verbatim>\<open>a + b\<close> of two string expressions and of a string expression
  with a literal; a null operand gives null.
\<close>

definition concat_cell :: "string option \<Rightarrow> string option \<Rightarrow> string option" where
  "concat_cell a b = (case (a, b) of (Some x, Some y) \<Rightarrow> Some (x @ y) | _ \<Rightarrow> None)"

definition str_add :: "column \<Rightarrow> column \<Rightarrow> error + column" where
  "str_add a b =
     (case (a, b) of
        (StrCol xs, StrCol ys) \<Rightarrow> Inr (StrCol (map2 concat_cell xs ys))
      | _ \<Rightarrow> Inl (SchemaError ''expected String''))"

definition str_add_lit :: "column \<Rightarrow> string \<Rightarrow> error + column" where
  "str_add_lit a lit =
     (case a of
        StrCol xs \<Rightarrow> Inr (StrCol (map (\<lambda>x. concat_cell x (Some lit)) xs))
      | _ \<Rightarrow> Inl (SchemaError ''expected String''))"

text \<open>
  True division \<^verbatim>\<open>a / b\<close>: both operands are taken to Float64 and divided by the IEEE
  rules, so a zero divisor gives an infinity or NaN, not an error and not null; a null
  operand gives null. Strings cannot be divided.
\<close>

fun fdiv :: "f64 \<Rightarrow> f64 \<Rightarrow> f64" where
  "fdiv NaN y = NaN"
| "fdiv x NaN = NaN"
| "fdiv (Fin a) (Fin b) =
     (if b = 0 then (if a = 0 then NaN else if 0 < a then PosInf else NegInf)
      else Fin (a / b))"
| "fdiv (Fin a) y = Fin 0"
| "fdiv PosInf (Fin b) = (if b < 0 then NegInf else PosInf)"
| "fdiv NegInf (Fin b) = (if b < 0 then PosInf else NegInf)"
| "fdiv x y = NaN"

definition div_cell :: "f64 option \<Rightarrow> f64 option \<Rightarrow> f64 option" where
  "div_cell a b = (case (a, b) of (Some x, Some y) \<Rightarrow> Some (fdiv x y) | _ \<Rightarrow> None)"

definition to_f64 :: "column \<Rightarrow> error + f64 option list" where
  "to_f64 c =
     (case c of
        IntCol xs \<Rightarrow> Inr (map (map_option (\<lambda>i. Fin (of_int i))) xs)
      | FloatCol xs \<Rightarrow> Inr xs
      | StrCol xs \<Rightarrow> Inl (SchemaError ''division is not defined for String''))"

definition true_div :: "column \<Rightarrow> column \<Rightarrow> error + column" where
  "true_div a b =
     bind_err (to_f64 a) (\<lambda>xs.
     bind_err (to_f64 b) (\<lambda>ys.
     Inr (FloatCol (map2 div_cell xs ys))))"

section \<open>The cell that formats the joined frame\<close>

text \<open>
  \<^verbatim>\<open>columns_to_drop = [col for col in [...] if col in joined_df.columns]\<close> and
  \<^verbatim>\<open>joined_df.drop(columns_to_drop)\<close>.
\<close>

definition drop_candidates :: "string list" where
  "drop_candidates =
     [''error_message'', ''status'', ''width'', ''height'', ''original_width'',
      ''original_height'', ''sha256'', ''hash'', ''caption_right'', ''id'']"

definition columns_to_drop :: "dataframe \<Rightarrow> string list" where
  "columns_to_drop joined_df = filter (\<lambda>col. col \<in> set (columns joined_df)) drop_candidates"

text \<open>
  \<^verbatim>\<open>columns_to_rename\<close>, the loop that collects \<^verbatim>\<open>existing_keys\<close>, and the dictionary
  comprehension passed to \<^verbatim>\<open>rename\<close>.
\<close>

definition columns_to_rename :: "(string \<times> string) list" where
  "columns_to_rename =
     [(''width_right'', ''image_width''), (''height_right'', ''image_height''),
      (''key'', ''image_id'')]"

definition existing_keys :: "dataframe \<Rightarrow> string list" where
  "existing_keys joined_df =
     filter (\<lambda>k. k \<in> set (columns joined_df)) (map fst columns_to_rename)"

definition rename_mapping :: "dataframe \<Rightarrow> (string \<times> string) list" where
  "rename_mapping joined_df =
     filter (\<lambda>(k, v). k \<in> set (existing_keys joined_df)) columns_to_rename"

definition drop_step :: "dataframe \<Rightarrow> error + dataframe" where
  "drop_step joined_df = pl_drop (columns_to_drop joined_df) joined_df"

definition rename_step :: "dataframe \<Rightarrow> error + dataframe" where
  "rename_step joined_df = pl_rename (rename_mapping joined_df) joined_df"

text \<open>The three \<^verbatim>\<open>with_columns\<close> calls: \<^verbatim>\<open>parquet_id\<close>, \<^verbatim>\<open>image_path\<close>, \<^verbatim>\<open>aspect_ratio\<close>.\<close>

definition add_parquet_id :: "dataframe \<Rightarrow> error + dataframe" where
  "add_parquet_id df =
     bind_err (get_column df ''image_id'') (\<lambda>ids.
     bind_err (str_slice 0 5 ids) (\<lambda>pid.
     Inr (with_column ''parquet_id'' pid df)))"

definition add_image_path :: "dataframe \<Rightarrow> error + dataframe" where
  "add_image_path df =
     bind_err (get_column df ''parquet_id'') (\<lambda>pid.
     bind_err (str_add_lit pid ''/'') (\<lambda>a.
     bind_err (get_column df ''image_id'') (\<lambda>ids.
     bind_err (str_add a ids) (\<lambda>b.
     bind_err (str_add_lit b ''.jpg'') (\<lambda>path.
     Inr (with_column ''image_path'' path df))))))"

definition add_aspect_ratio :: "dataframe \<Rightarrow> error + dataframe" where
  "add_aspect_ratio df =
     bind_err (get_column df ''image_width'') (\<lambda>w.
     bind_err (get_column df ''image_height'') (\<lambda>h.
     bind_err (true_div w h) (\<lambda>ar.
     Inr (with_column ''aspect_ratio'' ar df))))"

definition format_joined :: "dataframe \<Rightarrow> error + dataframe" where
  "format_joined joined_df =
     bind_err (drop_step joined_df) (\<lambda>d1.
     bind_err (rename_step d1) (\<lambda>d2.
     bind_err (add_parquet_id d2) (\<lambda>d3.
     bind_err (add_image_path d3) (\<lambda>d4.
     add_aspect_ratio d4))))"

text \<open>
  The value both run scripts pass as \<^verbatim>\<open>--image_extension\<close>; the notebook writes the
  same suffix as a literal.
\<close>

definition image_extension :: string where
  "image_extension = ''.jpg''"

section \<open>Reading the shards and joining\<close>

text \<open>
  \<^verbatim>\<open>pl.concat(dfs, how="vertical")\<close>: the frames are stacked; all of them must have the
  columns of the first, by name, order and type. An empty list raises.
\<close>

fun append_col :: "column \<Rightarrow> column \<Rightarrow> column" where
  "append_col (IntCol xs) (IntCol ys) = IntCol (xs @ ys)"
| "append_col (StrCol xs) (StrCol ys) = StrCol (xs @ ys)"
| "append_col (FloatCol xs) (FloatCol ys) = FloatCol (xs @ ys)"
| "append_col c d = c"

definition vstack :: "dataframe \<Rightarrow> dataframe \<Rightarrow> error + dataframe" where
  "vstack a b =
     (if length a \<noteq> length b then Inl (ShapeError ''unable to append: widths differ'')
      else if schema a \<noteq> schema b then Inl (SchemaError ''unable to append: schemas differ'')
      else Inr (map2 (\<lambda>(n, c) (m, d). (n, append_col c d)) a b))"

fun vstack_all :: "dataframe \<Rightarrow> dataframe list \<Rightarrow> error + dataframe" where
  "vstack_all acc [] = Inr acc"
| "vstack_all acc (d # ds) = bind_err (vstack acc d) (\<lambda>acc'. vstack_all acc' ds)"

definition pl_concat :: "dataframe list \<Rightarrow> error + dataframe" where
  "pl_concat dfs =
     (case dfs of
        [] \<Rightarrow> Inl (ValueError ''cannot concat empty list'')
      | d # ds \<Rightarrow> vstack_all d ds)"

text \<open>
  \<^verbatim>\<open>left.join(right, on=key, how="left")\<close>. Key cells are compared for equality within
  one type; a null key matches nothing. Every left row is emitted once for each right row
  with an equal key, and once with nulls on the right when there is none. The key column
  of the right frame is not repeated, and a right column whose name the left frame
  already has gets the suffix \<^verbatim>\<open>_right\<close>. Rows are listed in the order of the left
  frame, which polars does not promise and nothing below relies on.
\<close>

datatype val = IntV int | StrV string | FloatV f64

fun key_cells :: "column \<Rightarrow> val option list" where
  "key_cells (IntCol xs) = map (map_option IntV) xs"
| "key_cells (StrCol xs) = map (map_option StrV) xs"
| "key_cells (FloatCol xs) = map (map_option FloatV) xs"

definition matches :: "val option \<Rightarrow> val option list \<Rightarrow> nat list" where
  "matches k rk =
     (case k of
        None \<Rightarrow> []
      | Some v \<Rightarrow> map fst (filter (\<lambda>(j, x). x = Some v) (enumerate 0 rk)))"

definition join_rows :: "val option list \<Rightarrow> val option list \<Rightarrow> (nat \<times> nat option) list" where
  "join_rows lk rk =
     concat (map (\<lambda>(i, k). case matches k rk of
                              [] \<Rightarrow> [(i, None)]
                            | j # js \<Rightarrow> map (\<lambda>j'. (i, Some j')) (j # js))
                 (enumerate 0 lk))"

definition take_rows :: "nat option list \<Rightarrow> 'a option list \<Rightarrow> 'a option list" where
  "take_rows idx xs =
     map (\<lambda>i. case i of None \<Rightarrow> None
                | Some j \<Rightarrow> if j < length xs then xs ! j else None) idx"

fun gather :: "nat option list \<Rightarrow> column \<Rightarrow> column" where
  "gather idx (IntCol xs) = IntCol (take_rows idx xs)"
| "gather idx (StrCol xs) = StrCol (take_rows idx xs)"
| "gather idx (FloatCol xs) = FloatCol (take_rows idx xs)"

definition pl_join_left :: "string \<Rightarrow> dataframe \<Rightarrow> dataframe \<Rightarrow> error + dataframe" where
  "pl_join_left on left right =
     bind_err (get_column left on) (\<lambda>lk.
     bind_err (get_column right on) (\<lambda>rk.
       if col_dtype lk \<noteq> col_dtype rk
       then Inl (SchemaError ''datatypes of join keys do not match'')
       else
         (let rows = join_rows (key_cells lk) (key_cells rk);
              lcols = map (\<lambda>(n, c). (n, gather (map (\<lambda>(i, j). Some i) rows) c)) left;
              rcols = map (\<lambda>(n, c). (if n \<in> set (columns left) then n @ ''_right'' else n,
                                       gather (map snd rows) c))
                          (filter (\<lambda>(n, c). n \<noteq> on) right);
              out = lcols @ rcols
          in if distinct (columns out) then Inr out
             else Inl (DuplicateError ''column name occurs more than once''))))"

subsection \<open>The world outside the notebook\<close>

text \<open>
  What the notebook asks of its surroundings: whether a local folder exists, what the two
  globs list (the object-store one can raise), and what reading a file gives. The flag of
  \<open>read_parquet\<close> says whether the storage options were passed.
\<close>

record env =
  folder_exists :: "string \<Rightarrow> bool"
  local_glob :: "string \<Rightarrow> string \<Rightarrow> string list"
  s3_glob :: "string \<Rightarrow> error + string list"
  read_parquet :: "bool \<Rightarrow> string \<Rightarrow> error + dataframe"
  read_ipc :: "string \<Rightarrow> error + dataframe"

text \<open>The local files the notebook reads and writes by path: path to content.\<close>

type_synonym fs = "string \<rightharpoonup> string"

text \<open>Python's \<^verbatim>\<open>needle in haystack\<close> on strings.\<close>

fun contains :: "string \<Rightarrow> string \<Rightarrow> bool" where
  "contains needle [] = (needle = [])"
| "contains needle (c # cs) =
     (take (length needle) (c # cs) = needle \<or> contains needle cs)"

fun read_files :: "env \<Rightarrow> string list \<Rightarrow> error + dataframe list" where
  "read_files e [] = Inr []"
| "read_files e (parquet_file # rest) =
     bind_err (read_parquet e (contains ''s3://'' parquet_file) parquet_file) (\<lambda>df.
     bind_err (read_files e rest) (\<lambda>dfs. Inr (df # dfs)))"

definition join_parquet_files_in_dataset :: "env \<Rightarrow> string list \<Rightarrow> error + dataframe" where
  "join_parquet_files_in_dataset e parquet_files =
     bind_err (read_files e parquet_files) pl_concat"

subsection \<open>The cells, in order\<close>

definition orig_parquet_folder :: string where
  "orig_parquet_folder = ''/ssd/datasets/pd12m/metadata''"

definition downloaded_parquet_folder :: string where
  "downloaded_parquet_folder = ''s3://fc-gra-alejandria/ds/public/PD12M''"

definition feather_path :: string where
  "feather_path = ''output/global_pd12m_data.feather''"

definition dest_path :: string where
  "dest_path = ''output/global_pd12m_data.feather''"

text \<open>The cell under "Read data": both file lists, or \<^verbatim>\<open>FileNotFoundError\<close>.\<close>

definition read_data :: "env \<Rightarrow> error + string list \<times> string list" where
  "read_data e =
     (if \<not> folder_exists e orig_parquet_folder
      then Inl (FileNotFoundError (''Folder '' @ orig_parquet_folder @ '' does not exist''))
      else
        (let orig_parquet_files = local_glob e orig_parquet_folder ''*.parquet''
         in if length orig_parquet_files = 0
            then Inl (FileNotFoundError (''No parquet files found in '' @ orig_parquet_folder))
            else
              bind_err (s3_glob e (downloaded_parquet_folder @ ''/*.parquet'')) (\<lambda>listed.
                let downloaded_parquet_files = map (\<lambda>file. ''s3://'' @ file) listed
                in if length downloaded_parquet_files = 0
                   then Inl (FileNotFoundError
                               (''No parquet files found in '' @ downloaded_parquet_folder))
                   else Inr (orig_parquet_files, downloaded_parquet_files))))"

text \<open>The cell that reads both sets of shards and joins them on \<^verbatim>\<open>url\<close>.\<close>

definition join_data :: "env \<Rightarrow> string list \<times> string list \<Rightarrow> error + dataframe" where
  "join_data e files =
     bind_err (join_parquet_files_in_dataset e (fst files)) (\<lambda>orig_df.
     bind_err (join_parquet_files_in_dataset e (snd files)) (\<lambda>downloaded_df.
     pl_join_left ''url'' downloaded_df orig_df))"

text \<open>
  The first cell under "Format the joined dataframe": it raises unless the feather file
  is already there, and reads it.
\<close>

definition read_feather :: "env \<Rightarrow> fs \<Rightarrow> error + dataframe" where
  "read_feather e files =
     (case files feather_path of
        None \<Rightarrow> Inl (FileNotFoundError (''File '' @ feather_path @ '' does not exist''))
      | Some bytes \<Rightarrow> read_ipc e bytes)"

text \<open>
  The last cell: \<^verbatim>\<open>safe_write_ipc\<close> inside \<^verbatim>\<open>try\<close>; an exception is printed and the
  cell ends normally. The function lives in \<^verbatim>\<open>fc_ai_pd12m.utils\<close>, outside the source
  tree, so the cell takes it as a parameter: given the frame, the path and the files, it
  returns its exception, if any, and the files as it leaves them.
\<close>

type_synonym writer = "dataframe \<Rightarrow> string \<Rightarrow> fs \<Rightarrow> error option \<times> fs"

definition save_joined :: "writer \<Rightarrow> dataframe \<Rightarrow> fs \<Rightarrow> fs" where
  "save_joined safe_write_ipc joined_df files = snd (safe_write_ipc joined_df dest_path files)"

text \<open>
  Running the notebook from top to bottom: the first exception that leaves a cell ends
  the run; the result is that exception, if any, and the files.
\<close>

definition run_notebook :: "writer \<Rightarrow> env \<Rightarrow> fs \<Rightarrow> error option \<times> fs" where
  "run_notebook safe_write_ipc e files =
     (case read_data e of Inl err \<Rightarrow> (Some err, files) | Inr found \<Rightarrow>
     (case join_data e found of Inl err \<Rightarrow> (Some err, files) | Inr joined_df \<Rightarrow>
     (case read_feather e files of Inl err \<Rightarrow> (Some err, files) | Inr df \<Rightarrow>
     (case format_joined joined_df of Inl err \<Rightarrow> (Some err, files) | Inr out \<Rightarrow>
        (None, save_joined safe_write_ipc out files)))))"

section \<open>The Safe Writer\<close>

text \<open>
  Modelled from the spec: \<^verbatim>\<open>safe_write_ipc\<close> of \<^verbatim>\<open>fc_ai_pd12m.utils\<close> is called by the
  notebook but is not in the source tree. The spec, section 4.5: write to a temporary name
  first, then perform a single atomic rename (or overwrite after the complete upload) as
  the last step; on any error before that step the destination is untouched and the
  temporary artifact is cleaned up.

  The serialised frame reaches the writer as a list of write attempts, each the bytes to
  append or the error that attempt raises; \<open>commit_error\<close> is what the commit step
  raises, if anything.
\<close>

text \<open>
  Modelled from the spec: one successful write to the temporary artifact; the body of
  \<^verbatim>\<open>safe_write_ipc\<close> is missing.
\<close>

definition append_bytes :: "string \<Rightarrow> string \<Rightarrow> fs \<Rightarrow> fs" where
  "append_bytes path bytes files =
     files(path \<mapsto> (case files path of None \<Rightarrow> bytes | Some old \<Rightarrow> old @ bytes))"

text \<open>
  Modelled from the spec: "write to a temporary name/location first"; the first attempt
  that raises stops the writing. The body of \<^verbatim>\<open>safe_write_ipc\<close> is missing.
\<close>

fun write_chunks :: "string \<Rightarrow> (error + string) list \<Rightarrow> fs \<Rightarrow> error option \<times> fs" where
  "write_chunks tmp [] files = (None, files)"
| "write_chunks tmp (Inl err # rest) files = (Some err, files)"
| "write_chunks tmp (Inr bytes # rest) files =
     write_chunks tmp rest (append_bytes tmp bytes files)"

text \<open>
  Modelled from the spec: every state of the files an "external observer" can see before
  the commit step, in order. The body of \<^verbatim>\<open>safe_write_ipc\<close> is missing.
\<close>

fun write_states :: "string \<Rightarrow> (error + string) list \<Rightarrow> fs \<Rightarrow> fs list" where
  "write_states tmp [] files = [files]"
| "write_states tmp (Inl err # rest) files = [files]"
| "write_states tmp (Inr bytes # rest) files =
     files # write_states tmp rest (append_bytes tmp bytes files)"

text \<open>
  Modelled from the spec: the "single atomic rename (local) or overwrite-after-complete-upload
  (object store)", the last step. The body of \<^verbatim>\<open>safe_write_ipc\<close> is missing.
\<close>

definition commit :: "string \<Rightarrow> string \<Rightarrow> fs \<Rightarrow> fs" where
  "commit tmp dest files = (files(dest := files tmp))(tmp := None)"

text \<open>
  Modelled from the spec: "the temporary artifact is cleaned up". The body of
  \<^verbatim>\<open>safe_write_ipc\<close> is missing.
\<close>

definition cleanup :: "string \<Rightarrow> fs \<Rightarrow> fs" where
  "cleanup tmp files = files(tmp := None)"

text \<open>
  Modelled from the spec: the Safe Writer of section 4.5 as a whole, standing for the
  missing \<^verbatim>\<open>safe_write_ipc\<close>: create the temporary artifact, write, then commit;
  "guaranteed cleanup across all exit paths".
\<close>

definition safe_write ::
  "(error + string) list \<Rightarrow> error option \<Rightarrow> string \<Rightarrow> string \<Rightarrow> fs \<Rightarrow> error option \<times> fs" where
  "safe_write attempts commit_error tmp dest files =
     (case write_chunks tmp attempts (files(tmp \<mapsto> [])) of
        (Some err, files') \<Rightarrow> (Some err, cleanup tmp files')
      | (None, files') \<Rightarrow>
          (case commit_error of
             Some err \<Rightarrow> (Some err, cleanup tmp files')
           | None \<Rightarrow> (None, commit tmp dest files')))"

section \<open>The Dimension Resolver\<close>

text \<open>
  Modelled from the spec: the resolver belongs to \<^verbatim>\<open>create_global_feather.py\<close>, which
  the run scripts start but which is not in the source tree. The spec, sections 4.2, 5, 6
  and 8: the storage accessor's \<open>get\<close> gives bytes or one of the failures NotFound,
  Timeout, IOError; decoding gives width and height or fails on a corrupt image or an
  unsupported format; the resolver returns \<open>ok(width, height)\<close> or \<open>failed(reason)\<close>
  with a human-readable reason, \<open>timeout\<close> for a timeout and a reason containing
  \<open>not found\<close> for a missing object.
\<close>

text \<open>
  Modelled from the spec: the failures of \<open>get\<close> (section 6), the decode errors named
  in section 4.2, and the tagged result; the resolver's code is missing.
\<close>

datatype fetch_failure = NotFound | Timeout | IOError

datatype decode_failure = CorruptImage | UnsupportedFormat

datatype resolved = Ok nat nat | Failed string

text \<open>
  Modelled from the spec: the "human-readable reason string" of a failure; \<open>timeout\<close>
  is the reason section 5 gives, \<open>not found\<close> the one section 8 asks for, the other
  three repeat the spec's name of the failure. The resolver's code is missing.
\<close>

fun fetch_reason :: "fetch_failure \<Rightarrow> string" where
  "fetch_reason NotFound = ''not found''"
| "fetch_reason Timeout = ''timeout''"
| "fetch_reason IOError = ''io error''"

fun decode_reason :: "decode_failure \<Rightarrow> string" where
  "decode_reason CorruptImage = ''corrupt image''"
| "decode_reason UnsupportedFormat = ''unsupported format''"

text \<open>
  Modelled from the spec: the Dimension Resolver of section 4.2, whose code is missing:
  fetch, then decode; every failure becomes \<open>Failed\<close>.
\<close>

definition resolve_dimensions ::
  "(string \<Rightarrow> fetch_failure + 'b) \<Rightarrow> ('b \<Rightarrow> decode_failure + nat \<times> nat) \<Rightarrow> string \<Rightarrow> resolved" where
  "resolve_dimensions get decode ref =
     (case get ref of
        Inl f \<Rightarrow> Failed (fetch_reason f)
      | Inr bytes \<Rightarrow>
          (case decode bytes of
             Inl d \<Rightarrow> Failed (decode_reason d)
           | Inr (w, h) \<Rightarrow> Ok w h))"

text \<open>
  Modelled from the spec: the outcomes of a batch, one for every submitted reference
  (section 4.3: "every submitted item yields exactly one outcome"); the pool's code is
  missing, and its scheduling is not modelled.
\<close>

definition resolve_batch ::
  "(string \<Rightarrow> fetch_failure + 'b) \<Rightarrow> ('b \<Rightarrow> decode_failure + nat \<times> nat) \<Rightarrow> string list
     \<Rightarrow> (string \<times> resolved) list" where
  "resolve_batch get decode refs = map (\<lambda>ref. (ref, resolve_dimensions get decode ref)) refs"

section \<open>Auxiliary notions for the join\<close>



section \<open>The public schema, as the spec words it\<close>

text \<open>
  The spec, section 4.4: columns are renamed to the public schema by
  \<open>width_right \<rightarrow> image_width\<close>, \<open>height_right \<rightarrow> image_height\<close>, \<open>key \<rightarrow> image_id\<close>.
  This is the spec's mapping on names, to be compared with what \<open>rename_step\<close> does.
\<close>

definition public_name :: "string \<Rightarrow> string" where
  "public_name n =
     (if n = ''width_right'' then ''image_width''
      else if n = ''height_right'' then ''image_height''
      else if n = ''key'' then ''image_id''
      else n)"

section \<open>Concrete frames\<close>

text \<open>
  A joined frame of two rows as the join of the img2dataset shards with the original
  metadata gives it: the second image failed to download, and its original height is 0.
\<close>

definition ex_joined :: dataframe where
  "ex_joined =
     [(''url'', StrCol [Some ''http://a/1.jpg'', Some ''http://a/2.jpg'']),
      (''key'', StrCol [Some ''000010002'', Some ''000010003'']),
      (''status'', StrCol [Some ''success'', Some ''failed_to_download'']),
      (''error_message'', StrCol [None, Some ''timeout'']),
      (''width'', IntCol [Some 10, None]),
      (''height'', IntCol [Some 5, None]),
      (''width_right'', IntCol [Some 100, Some 7]),
      (''height_right'', IntCol [Some 50, Some 0])]"

definition ex_final :: dataframe where
  "ex_final =
     [(''url'', StrCol [Some ''http://a/1.jpg'', Some ''http://a/2.jpg'']),
      (''image_id'', StrCol [Some ''000010002'', Some ''000010003'']),
      (''image_width'', IntCol [Some 100, Some 7]),
      (''image_height'', IntCol [Some 50, Some 0]),
      (''parquet_id'', StrCol [Some ''00001'', Some ''00001'']),
      (''image_path'', StrCol [Some ''00001/000010002.jpg'', Some ''00001/000010003.jpg'']),
      (''aspect_ratio'', FloatCol [Some (Fin 2), Some PosInf])]"









text \<open>
  Surroundings in which the local metadata folder exists but holds no parquet file, and a
  writer that always succeeds.
\<close>

definition ex_env_no_shards :: env where
  "ex_env_no_shards =
     \<lparr>folder_exists = (\<lambda>folder. True),
      local_glob = (\<lambda>folder pattern. []),
      s3_glob = (\<lambda>pattern. Inr [''fc-gra-alejandria/ds/public/PD12M/00000.parquet'']),
      read_parquet = (\<lambda>opts file. Inl (FileNotFoundError file)),
      read_ipc = (\<lambda>bytes. Inl (ValueError ''not an IPC file''))\<rparr>"

definition ex_writer :: writer where
  "ex_writer df path files = (None, files(path \<mapsto> ''ARROW1''))"

text \<open>Local files with an earlier output at the destination path.\<close>

definition ex_files :: fs where
  "ex_files = [''output/global_pd12m_data.feather'' \<mapsto> ''OLD'']"

text \<open>
  The scenario of the spec, section 8: keys \<open>a1\<close>, \<open>a2\<close>, \<open>b1\<close>; the object of \<open>a2\<close>
  is missing, the other two decode to 100 by 50 and 200 by 200.
\<close>

definition ex_get :: "string \<Rightarrow> fetch_failure + string" where
  "ex_get ref = (if ref = ''a2'' then Inl NotFound else Inr ref)"

definition ex_decode :: "string \<Rightarrow> decode_failure + nat \<times> nat" where
  "ex_decode bytes = (if bytes = ''a1'' then Inr (100, 50) else Inr (200, 200))"

section \<open>Properties\<close>

subsection \<open>Helper facts\<close>

lemma bind_err_Inr: "bind_err m f = Inr y \<longleftrightarrow> (\<exists>x. m = Inr x \<and> f x = Inr y)"
  by (cases m) (simp_all add: bind_err_def)

lemma bind_err_simps [simp]: "bind_err (Inl e) f = Inl e" "bind_err (Inr x) f = f x"
  by (simp_all add: bind_err_def)

lemma columns_to_drop_present: "filter (\<lambda>n. n \<notin> set (columns df)) (columns_to_drop df) = []"
  by (simp add: columns_to_drop_def filter_empty_conv)

lemma drop_filter_eq:
  "filter (\<lambda>(n, c). n \<notin> set (columns_to_drop df)) df = filter (\<lambda>(n, c). n \<notin> set drop_candidates) df"
  by (rule filter_cong) (force simp: columns_to_drop_def columns_def)+

lemma drop_step_total: "drop_step df = Inr (filter (\<lambda>(n, c). n \<notin> set drop_candidates) df)"
  by (simp add: drop_step_def pl_drop_def columns_to_drop_present drop_filter_eq)

lemma rename_keys_present:
  "filter (\<lambda>k. k \<notin> set (columns df)) (map fst (rename_mapping df)) = []"
  by (auto simp: rename_mapping_def existing_keys_def filter_empty_conv)

lemma map_of_filter_keys:
  "map_of (filter (\<lambda>(k, v). P k) m) n = (if P n then map_of m n else None)"
  by (induction m) auto

lemma rename_mapping_eq:
  "rename_mapping df = filter (\<lambda>(k, v). k \<in> set (columns df)) columns_to_rename"
proof -
  have "k \<in> set (existing_keys df) \<longleftrightarrow> k \<in> set (columns df)"
    if "(k, v) \<in> set columns_to_rename" for k v
    using that by (force simp: existing_keys_def)
  then show ?thesis
    unfolding rename_mapping_def by (intro filter_cong) auto
qed

lemma public_name_lookup:
  "public_name n = (case map_of columns_to_rename n of None \<Rightarrow> n | Some v \<Rightarrow> v)"
  by (simp add: public_name_def columns_to_rename_def)

lemma renamed_mapping:
  "n \<in> set (columns df) \<Longrightarrow> renamed (rename_mapping df) n = public_name n"
  by (simp add: renamed_def rename_mapping_eq map_of_filter_keys public_name_lookup)

lemma rename_map_eq:
  "map (\<lambda>(n, c). (renamed (rename_mapping df) n, c)) df = map (\<lambda>(n, c). (public_name n, c)) df"
  by (rule map_cong) (auto simp: renamed_mapping columns_def rev_image_eqI)

lemma rename_step_char:
  "rename_step df =
     (if distinct (map public_name (columns df))
      then Inr (map (\<lambda>(n, c). (public_name n, c)) df)
      else Inl (DuplicateError ''column name occurs more than once''))"
proof -
  have "columns (map (\<lambda>(n, c). (public_name n, c)) df) = map public_name (columns df)"
    by (simp add: columns_def case_prod_unfold comp_def)
  then show ?thesis
    by (simp add: rename_step_def pl_rename_def rename_keys_present rename_map_eq)
qed

lemma columns_with_column:
  "columns (with_column name c df) = (if name \<in> set (columns df) then columns df else columns df @ [name])"
  by (induction df) (auto simp: with_column_def columns_def)

lemma set_columns_with_column: "set (columns (with_column name c df)) = insert name (set (columns df))"
  by (auto simp: columns_with_column)

lemma map_of_replace_other:
  "m \<noteq> name \<Longrightarrow>
   map_of (map (\<lambda>(n, old). if n = name then (n, c) else (n, old)) df) m = map_of df m"
  by (induction df) auto

lemma map_of_replace_same:
  "name \<in> fst ` set df \<Longrightarrow>
   map_of (map (\<lambda>(n, old). if n = name then (n, c) else (n, old)) df) name = Some c"
  by (induction df) auto

lemma map_of_with_column:
  "map_of (with_column name c df) m = (if m = name then Some c else map_of df m)"
proof (cases "name \<in> set (columns df)")
  case True
  then show ?thesis
    by (simp add: with_column_def columns_def map_of_replace_other map_of_replace_same)
next
  case False
  then have "map_of df name = None"
    by (simp add: columns_def map_of_eq_None_iff)
  with False show ?thesis
    by (auto simp: with_column_def map_add_def split: option.splits)
qed

lemma get_column_with_column:
  "get_column (with_column name c df) m = (if m = name then Inr c else get_column df m)"
  by (simp add: get_column_def map_of_with_column)

lemma add_parquet_id_Inr:
  assumes "add_parquet_id df = Inr out"
  shows "\<exists>ids. get_column df ''image_id'' = Inr (StrCol ids) \<and>
    out = with_column ''parquet_id'' (StrCol (map (map_option (take 5)) ids)) df"
proof -
  from assms obtain x pid where x: "get_column df ''image_id'' = Inr x"
    and pid: "str_slice 0 5 x = Inr pid" and out: "out = with_column ''parquet_id'' pid df"
    by (auto simp: add_parquet_id_def bind_err_Inr)
  from pid show ?thesis
    using x out by (cases x) (auto simp: str_slice_def)
qed

lemma path_cells:
  "map (\<lambda>x. concat_cell x (Some ext))
     (map2 concat_cell (map (\<lambda>x. concat_cell x (Some sep)) (map (map_option (take k)) ids)) ids)
   = map (map_option (\<lambda>s. take k s @ sep @ s @ ext)) ids"
  by (induction ids) (auto simp: concat_cell_def split: option.splits)

lemma add_image_path_Inr:
  assumes "add_image_path df = Inr out"
    and "get_column df ''parquet_id'' = Inr (StrCol (map (map_option (take 5)) ids))"
    and "get_column df ''image_id'' = Inr (StrCol ids)"
  shows "out = with_column ''image_path''
           (StrCol (map (map_option (\<lambda>s. take 5 s @ ''/'' @ s @ ''.jpg'')) ids)) df"
  using assms
  by (simp add: add_image_path_def str_add_lit_def str_add_def path_cells del: map_map)

lemma add_aspect_ratio_Inr:
  assumes "add_aspect_ratio df = Inr out"
  obtains w h ar where "get_column df ''image_width'' = Inr w" "get_column df ''image_height'' = Inr h"
    "true_div w h = Inr ar" "out = with_column ''aspect_ratio'' ar df"
  using assms by (auto simp: add_aspect_ratio_def bind_err_Inr)

lemma format_joined_Inr:
  assumes "format_joined df = Inr out"
  obtains d1 d2 d3 d4 where "drop_step df = Inr d1" "rename_step d1 = Inr d2"
    "add_parquet_id d2 = Inr d3" "add_image_path d3 = Inr d4" "add_aspect_ratio d4 = Inr out"
  using assms by (auto simp: format_joined_def bind_err_Inr)

lemma columns_filter: "columns (filter (\<lambda>(n, c). P n) df) = filter P (columns df)"
  by (induction df) (auto simp: columns_def)

lemma set_columns_add_parquet_id:
  "add_parquet_id df = Inr out \<Longrightarrow> set (columns out) = insert ''parquet_id'' (set (columns df))"
  by (drule add_parquet_id_Inr) (auto simp: set_columns_with_column)

lemma set_columns_add_image_path:
  "add_image_path df = Inr out \<Longrightarrow> set (columns out) = insert ''image_path'' (set (columns df))"
  by (auto simp: add_image_path_def bind_err_Inr set_columns_with_column)

lemma set_columns_add_aspect_ratio:
  "add_aspect_ratio df = Inr out \<Longrightarrow> set (columns out) = insert ''aspect_ratio'' (set (columns df))"
  by (erule add_aspect_ratio_Inr) (simp add: set_columns_with_column)

lemma set_columns_format_joined:
  assumes "format_joined df = Inr out"
  shows "set (columns out) =
    {''parquet_id'', ''image_path'', ''aspect_ratio''} \<union>
    public_name ` (set (columns df) - set drop_candidates)"
proof -
  from assms obtain d1 d2 d3 d4 where s: "drop_step df = Inr d1" "rename_step d1 = Inr d2"
    "add_parquet_id d2 = Inr d3" "add_image_path d3 = Inr d4" "add_aspect_ratio d4 = Inr out"
    by (rule format_joined_Inr)
  have c1: "set (columns d1) = set (columns df) - set drop_candidates"
    using s(1) by (auto simp: drop_step_total columns_filter)
  have c2: "set (columns d2) = public_name ` set (columns d1)"
    using s(2) by (force simp: rename_step_char columns_def case_prod_unfold image_image split: if_splits)
  show ?thesis
    using s(3-5) c1 c2
    by (auto simp: set_columns_add_parquet_id set_columns_add_image_path set_columns_add_aspect_ratio)
qed

lemma ex_joined_formats: "format_joined ex_joined = Inr ex_final"
  by code_simp

subsection \<open>Dropping and renaming\<close>

text \<open>
  C9. After the join the rename step renames exactly \<open>width_right\<close> to \<open>image_width\<close>,
  \<open>height_right\<close> to \<open>image_height\<close> and \<open>key\<close> to \<open>image_id\<close>: every column keeps
  its position and its cells, its name becomes the spec's \<open>public_name\<close> of it, and no
  other name changes. The step raises only when two columns would end up with one name.
\<close>

theorem rename_step_is_public_schema:
  "rename_step df =
     (if distinct (map public_name (columns df))
      then Inr (map (\<lambda>(n, c). (public_name n, c)) df)
      else Inl (DuplicateError ''column name occurs more than once''))"
proof -
  have present: "filter (\<lambda>k. k \<notin> set (columns df)) (map fst (rename_mapping df)) = []"
    by (auto simp: rename_mapping_def existing_keys_def filter_empty_conv)
  have cells: "map (\<lambda>(n, c). (renamed (rename_mapping df) n, c)) df =
      map (\<lambda>(n, c). (public_name n, c)) df"
    by (rule map_cong) (auto simp: renamed_mapping columns_def rev_image_eqI)
  have names: "columns (map (\<lambda>(n, c). (public_name n, c)) df) = map public_name (columns df)"
    by (simp add: columns_def case_prod_unfold comp_def)
  show ?thesis
    unfolding rename_step_def pl_rename_def
    by (simp add: present cells names)
qed

theorem rename_step_is_public_schema_witness:
  "rename_step ex_joined =
     Inr [(''url'', StrCol [Some ''http://a/1.jpg'', Some ''http://a/2.jpg'']),
          (''image_id'', StrCol [Some ''000010002'', Some ''000010003'']),
          (''status'', StrCol [Some ''success'', Some ''failed_to_download'']),
          (''error_message'', StrCol [None, Some ''timeout'']),
          (''width'', IntCol [Some 10, None]),
          (''height'', IntCol [Some 5, None]),
          (''image_width'', IntCol [Some 100, Some 7]),
          (''image_height'', IntCol [Some 50, Some 0])]"
  using rename_step_is_public_schema [of ex_joined]
  by (simp add: ex_joined_def columns_def public_name_def)



subsection \<open>The status columns\<close>

text \<open>
  C4, as amended. No row of the final table carries a \<open>status\<close> or an \<open>error_message\<close>
  field: whenever the formatting cell succeeds, its result has neither column, because
  the drop step removes both and no later step adds them.
\<close>

theorem final_table_has_no_status:
  assumes "format_joined joined_df = Inr out"
  shows "''status'' \<notin> set (columns out) \<and> ''error_message'' \<notin> set (columns out)"
  using set_columns_format_joined [OF assms]
  by (auto simp: public_name_def drop_candidates_def split: if_splits)

theorem final_table_has_no_status_witness:
  "format_joined ex_joined = Inr ex_final \<and>
   ''status'' \<notin> set (columns ex_final) \<and> ''error_message'' \<notin> set (columns ex_final)"
  using final_table_has_no_status [OF ex_joined_formats] ex_joined_formats by simp

text \<open>
  C4, the claim as stated fails: the joined frame \<open>ex_joined\<close> has a \<open>status\<close> column,
  the final table made from it has none.
\<close>

theorem final_table_status_counterexample:
  "format_joined ex_joined = Inr ex_final \<and>
   ''status'' \<in> set (columns ex_joined) \<and> ''status'' \<notin> set (columns ex_final)"
  using ex_joined_formats by (simp add: ex_joined_def ex_final_def columns_def)

subsection \<open>The derived columns\<close>

lemma format_joined_columns:
  assumes "format_joined df = Inr out"
  shows "\<exists>d2 ids w h ar.
    get_column d2 ''image_id'' = Inr (StrCol ids) \<and>
    get_column d2 ''image_width'' = Inr w \<and> get_column d2 ''image_height'' = Inr h \<and>
    true_div w h = Inr ar \<and>
    out = with_column ''aspect_ratio'' ar
            (with_column ''image_path''
               (StrCol (map (map_option (\<lambda>s. take 5 s @ ''/'' @ s @ ''.jpg'')) ids))
               (with_column ''parquet_id'' (StrCol (map (map_option (take 5)) ids)) d2))"
proof -
  from assms obtain d1 d2 d3 d4 where s: "drop_step df = Inr d1" "rename_step d1 = Inr d2"
    "add_parquet_id d2 = Inr d3" "add_image_path d3 = Inr d4" "add_aspect_ratio d4 = Inr out"
    by (rule format_joined_Inr)
  from add_parquet_id_Inr [OF s(3)] obtain ids where
    ids: "get_column d2 ''image_id'' = Inr (StrCol ids)"
    and d3: "d3 = with_column ''parquet_id'' (StrCol (map (map_option (take 5)) ids)) d2"
    by blast
  have "get_column d3 ''parquet_id'' = Inr (StrCol (map (map_option (take 5)) ids))"
    and "get_column d3 ''image_id'' = Inr (StrCol ids)"
    by (simp_all add: d3 get_column_with_column ids)
  with s(4) have d4: "d4 = with_column ''image_path''
      (StrCol (map (map_option (\<lambda>s. take 5 s @ ''/'' @ s @ ''.jpg'')) ids)) d3"
    by (rule add_image_path_Inr)
  from s(5) obtain w h ar where wh: "get_column d4 ''image_width'' = Inr w"
    "get_column d4 ''image_height'' = Inr h" "true_div w h = Inr ar"
    "out = with_column ''aspect_ratio'' ar d4"
    by (rule add_aspect_ratio_Inr)
  from wh(1,2) have "get_column d2 ''image_width'' = Inr w" "get_column d2 ''image_height'' = Inr h"
    by (simp_all add: d4 d3 get_column_with_column)
  with ids wh(3,4) d4 d3 show ?thesis by blast
qed





text \<open>
  C7. For every record of the final table, \<open>image_path\<close> is the concatenation of the
  shard prefix (the first five characters of \<open>image_id\<close>), a slash, \<open>image_id\<close> and the
  configured \<open>image_extension\<close>; a null \<open>image_id\<close> gives a null path.
\<close>

theorem image_path_derivation:
  assumes "format_joined joined_df = Inr out"
  shows "\<exists>ids. get_column out ''image_id'' = Inr (StrCol ids) \<and>
    get_column out ''image_path'' =
      Inr (StrCol (map (map_option (\<lambda>image_id. take 5 image_id @ ''/'' @ image_id @ image_extension)) ids))"
  using format_joined_columns [OF assms]
  by (auto simp: get_column_with_column image_extension_def)

theorem image_path_derivation_witness:
  "format_joined ex_joined = Inr ex_final \<and>
   get_column ex_final ''image_id'' = Inr (StrCol [Some ''000010002'', Some ''000010003'']) \<and>
   get_column ex_final ''image_path'' =
     Inr (StrCol [Some ''00001/000010002.jpg'', Some ''00001/000010003.jpg''])"
  using image_path_derivation [OF ex_joined_formats] ex_joined_formats
  by (simp add: ex_final_def get_column_def)




subsection \<open>The join\<close>








































subsection \<open>Enumeration\<close>

lemma read_data_fails_iff:
  "isl (read_data e) \<longleftrightarrow>
     \<not> folder_exists e orig_parquet_folder \<or>
     local_glob e orig_parquet_folder ''*.parquet'' = [] \<or>
     isl (s3_glob e (downloaded_parquet_folder @ ''/*.parquet'')) \<or>
     s3_glob e (downloaded_parquet_folder @ ''/*.parquet'') = Inr []"
  by (cases "s3_glob e (downloaded_parquet_folder @ ''/*.parquet'')")
     (simp_all add: read_data_def Let_def)

lemma read_data_error:
  assumes "read_data e = Inl err"
  shows "(\<exists>msg. err = FileNotFoundError msg) \<or>
     s3_glob e (downloaded_parquet_folder @ ''/*.parquet'') = Inl err"
  using assms
  by (cases "s3_glob e (downloaded_parquet_folder @ ''/*.parquet'')")
     (auto simp: read_data_def Let_def split: if_splits)

lemma run_notebook_read_data_fails:
  "read_data e = Inl err \<Longrightarrow> run_notebook w e files = (Some err, files)"
  by (simp add: run_notebook_def)

text \<open>
  C8. When the input location is unreachable (the local folder does not exist, or listing
  the object store raises) or holds no parquet file on either side, the cell that
  enumerates the shards raises: \<^verbatim>\<open>FileNotFoundError\<close>, or the listing's own exception.
  That exception ends the run, whatever the writer, and the files are as they were: no
  output is written.
\<close>

theorem enumeration_failure_is_fatal:
  assumes "\<not> folder_exists e orig_parquet_folder \<or>
     local_glob e orig_parquet_folder ''*.parquet'' = [] \<or>
     isl (s3_glob e (downloaded_parquet_folder @ ''/*.parquet'')) \<or>
     s3_glob e (downloaded_parquet_folder @ ''/*.parquet'') = Inr []"
  shows "\<exists>err. read_data e = Inl err \<and>
     run_notebook safe_write_ipc e files = (Some err, files) \<and>
     ((\<exists>msg. err = FileNotFoundError msg) \<or>
      s3_glob e (downloaded_parquet_folder @ ''/*.parquet'') = Inl err)"
proof -
  from assms have "isl (read_data e)"
    by (simp only: read_data_fails_iff)
  then obtain err where err: "read_data e = Inl err"
    by (auto simp: isl_def)
  from err read_data_error [OF err] run_notebook_read_data_fails [OF err]
  show ?thesis by blast
qed

theorem enumeration_failure_is_fatal_witness:
  "local_glob ex_env_no_shards orig_parquet_folder ''*.parquet'' = [] \<and>
   read_data ex_env_no_shards =
     Inl (FileNotFoundError ''No parquet files found in /ssd/datasets/pd12m/metadata'') \<and>
   run_notebook ex_writer ex_env_no_shards Map.empty =
     (Some (FileNotFoundError ''No parquet files found in /ssd/datasets/pd12m/metadata''),
      Map.empty)"
proof -
  have g: "local_glob ex_env_no_shards orig_parquet_folder ''*.parquet'' = []"
    by (simp add: ex_env_no_shards_def)
  have r: "read_data ex_env_no_shards =
     Inl (FileNotFoundError ''No parquet files found in /ssd/datasets/pd12m/metadata'')"
    by (simp add: read_data_def ex_env_no_shards_def orig_parquet_folder_def)
  from enumeration_failure_is_fatal [of ex_env_no_shards ex_writer Map.empty] g r
  show ?thesis by auto
qed

subsection \<open>The Safe Writer\<close>

lemma append_bytes_other: "p \<noteq> tmp \<Longrightarrow> append_bytes tmp bytes files p = files p"
  by (simp add: append_bytes_def)

lemma write_chunks_other:
  "p \<noteq> tmp \<Longrightarrow> snd (write_chunks tmp attempts files) p = files p"
  by (induction tmp attempts files rule: write_chunks.induct) (simp_all add: append_bytes_other)

lemma write_states_other:
  "p \<noteq> tmp \<Longrightarrow> s \<in> set (write_states tmp attempts files) \<Longrightarrow> s p = files p"
  by (induction tmp attempts files rule: write_states.induct) (auto simp: append_bytes_other)

lemma write_states_nonempty: "write_states tmp attempts files \<noteq> []"
  by (induction tmp attempts files rule: write_states.induct) simp_all

lemma write_states_last:
  "snd (write_chunks tmp attempts files) = last (write_states tmp attempts files)"
  by (induction tmp attempts files rule: write_chunks.induct)
     (simp_all add: write_states_nonempty)

lemma safe_write_error:
  assumes "safe_write attempts commit_error tmp dest files = (Some err, files')"
  shows "files' = cleanup tmp (snd (write_chunks tmp attempts (files(tmp \<mapsto> []))))"
  using assms
  by (auto simp: safe_write_def split: prod.splits option.splits)

lemma write_chunks_all_written:
  assumes "\<forall>a \<in> set attempts. \<not> isl a" and "files tmp = Some old"
  shows "write_chunks tmp attempts files =
    (None, files(tmp \<mapsto> old @ concat (map projr attempts)))"
  using assms
proof (induction tmp attempts files arbitrary: old rule: write_chunks.induct)
  case (1 tmp files)
  then show ?case by (simp add: fun_upd_idem)
next
  case (2 tmp err rest files)
  then show ?case by simp
next
  case (3 tmp bytes rest files)
  have eq: "append_bytes tmp bytes files = files(tmp \<mapsto> old @ bytes)"
    using 3(3) by (simp add: append_bytes_def)
  have "write_chunks tmp rest (files(tmp \<mapsto> old @ bytes)) =
      (None, (files(tmp \<mapsto> old @ bytes))(tmp \<mapsto> (old @ bytes) @ concat (map projr rest)))"
    using 3(2) by (intro 3(1) [unfolded eq]) simp_all
  then show ?case
    by (auto simp: eq fun_upd_def fun_eq_iff)
qed

lemma safe_write_commits:
  assumes "\<forall>a \<in> set attempts. \<not> isl a"
  shows "safe_write attempts None tmp dest files =
    (None, (files(dest \<mapsto> concat (map projr attempts)))(tmp := None))"
  using write_chunks_all_written [OF assms, of "files(tmp \<mapsto> [])" tmp "[]"]
  by (auto simp: safe_write_def commit_def)

text \<open>
  C2. With a temporary path different from the destination: in every state of the files
  before the commit step, the one the writing ends in included, the destination holds
  what it held before the call (nothing, or its previous content); and whenever the
  writer ends with an error, in a write or in the commit step itself, the destination is
  as before and the temporary file is gone.
\<close>

theorem safe_write_failure_leaves_destination:
  assumes "tmp \<noteq> dest"
  shows "(\<forall>s \<in> set (write_states tmp attempts (files(tmp \<mapsto> []))). s dest = files dest) \<and>
    snd (write_chunks tmp attempts (files(tmp \<mapsto> []))) \<in>
      set (write_states tmp attempts (files(tmp \<mapsto> []))) \<and>
    (\<forall>err files'. safe_write attempts commit_error tmp dest files = (Some err, files') \<longrightarrow>
       files' dest = files dest \<and> files' tmp = None)"
proof (intro conjI ballI allI impI)
  fix s assume "s \<in> set (write_states tmp attempts (files(tmp \<mapsto> [])))"
  with assms have "s dest = (files(tmp \<mapsto> [])) dest"
    using write_states_other [of dest tmp s attempts "files(tmp \<mapsto> [])"] by simp
  with assms show "s dest = files dest" by simp
next
  show "snd (write_chunks tmp attempts (files(tmp \<mapsto> []))) \<in>
      set (write_states tmp attempts (files(tmp \<mapsto> [])))"
    by (simp add: write_states_last write_states_nonempty)
next
  fix err files'
  assume "safe_write attempts commit_error tmp dest files = (Some err, files')"
  then have f: "files' = cleanup tmp (snd (write_chunks tmp attempts (files(tmp \<mapsto> []))))"
    by (rule safe_write_error)
  have "snd (write_chunks tmp attempts (files(tmp \<mapsto> []))) dest = (files(tmp \<mapsto> [])) dest"
    using assms write_chunks_other [of dest tmp attempts "files(tmp \<mapsto> [])"] by simp
  with assms show "files' dest = files dest" by (simp add: f cleanup_def)
next
  fix err files'
  assume "safe_write attempts commit_error tmp dest files = (Some err, files')"
  then have "files' = cleanup tmp (snd (write_chunks tmp attempts (files(tmp \<mapsto> []))))"
    by (rule safe_write_error)
  then show "files' tmp = None" by (simp add: cleanup_def)
qed

theorem safe_write_failure_leaves_destination_witness:
  "''output/tmp.feather'' \<noteq> dest_path \<and>
   fst (safe_write [Inr ''ARR'', Inl (StorageError ''disk full''), Inr ''OW1''] None
          ''output/tmp.feather'' dest_path ex_files) = Some (StorageError ''disk full'') \<and>
   snd (safe_write [Inr ''ARR'', Inl (StorageError ''disk full''), Inr ''OW1''] None
          ''output/tmp.feather'' dest_path ex_files) dest_path = Some ''OLD'' \<and>
   snd (safe_write [Inr ''ARR'', Inl (StorageError ''disk full''), Inr ''OW1''] None
          ''output/tmp.feather'' dest_path ex_files) ''output/tmp.feather'' = None"
proof -
  let ?w = "safe_write [Inr ''ARR'', Inl (StorageError ''disk full''), Inr ''OW1''] None
          ''output/tmp.feather'' dest_path ex_files"
  have ne: "''output/tmp.feather'' \<noteq> dest_path"
    by (simp add: dest_path_def)
  have e: "fst ?w = Some (StorageError ''disk full'')"
    by (simp add: safe_write_def)
  then have w: "?w = (Some (StorageError ''disk full''), snd ?w)"
    by (metis prod.collapse)
  have old: "ex_files dest_path = Some ''OLD''"
    by (simp add: ex_files_def dest_path_def)
  from safe_write_failure_leaves_destination [OF ne, of _ ex_files None] w old ne e
  show ?thesis by metis
qed

subsection \<open>The Dimension Resolver\<close>



lemma resolve_scenario:
  "resolve_batch ex_get ex_decode [''a1'', ''a2'', ''b1''] =
     [(''a1'', Ok 100 50), (''a2'', Failed ''not found''), (''b1'', Ok 200 200)]"
  by (simp add: resolve_batch_def resolve_dimensions_def ex_get_def ex_decode_def)

end
